theory Spec2Isabelle
  imports Complex_Main "HOL-Library.Char_ord" "HOL-Library.List_Lexorder"
    "HOL-Library.Product_Lexorder" "HOL-Library.Multiset"
begin

section \<open>Campaign analytics dashboard (app.py): the data pipeline\<close>

text \<open>
  The script reads an uploaded CSV into a pandas data frame, renames alias columns,
  synthesises an Audience column when there is none, checks the required columns, parses
  the dates, derives Day and ROAS, computes three KPIs and builds the tables behind four
  views. This theory embeds the part after \<open>pd.read_csv\<close>: the input of the model is
  the parsed data frame. Rendering (streamlit, plotly) is outside the model; what is handed
  to it is the result of the model.
\<close>

subsection \<open>Numbers\<close>

text \<open>
  A numeric cell is a double (or an int64 that pandas turns into a double on division).
  The model keeps the special values of IEEE arithmetic, which a CSV can contain
  (\<open>inf\<close>, \<open>-inf\<close>, an empty field read as NaN) and which row-level division produces,
  and treats a finite value as an exact real: rounding, overflow of finite arithmetic and
  the sign of zero are not modelled.
\<close>

datatype pyfloat = Fin real | PInf | NInf | NaN

fun fadd :: "pyfloat \<Rightarrow> pyfloat \<Rightarrow> pyfloat" where
  "fadd NaN y = NaN"
| "fadd x NaN = NaN"
| "fadd (Fin a) (Fin b) = Fin (a + b)"
| "fadd PInf NInf = NaN"
| "fadd NInf PInf = NaN"
| "fadd PInf y = PInf"
| "fadd x PInf = PInf"
| "fadd NInf y = NInf"
| "fadd x NInf = NInf"

text \<open>True division of numpy: a zero divisor gives an infinity or NaN, never an exception.\<close>

fun fdiv :: "pyfloat \<Rightarrow> pyfloat \<Rightarrow> pyfloat" where
  "fdiv NaN y = NaN"
| "fdiv x NaN = NaN"
| "fdiv (Fin a) (Fin b) =
     (if b = 0 then (if a > 0 then PInf else if a < 0 then NInf else NaN) else Fin (a / b))"
| "fdiv (Fin a) y = Fin 0"
| "fdiv PInf (Fin b) = (if b < 0 then NInf else PInf)"
| "fdiv NInf (Fin b) = (if b < 0 then PInf else NInf)"
| "fdiv x y = NaN"

text \<open>\<open>x > 0\<close>: false for NaN.\<close>

fun gt_zero :: "pyfloat \<Rightarrow> bool" where
  "gt_zero (Fin a) = (a > 0)"
| "gt_zero PInf = True"
| "gt_zero NInf = False"
| "gt_zero NaN = False"

text \<open>\<open>x \<le> y\<close> on values that are not NaN (NaN compares false with everything).\<close>

fun fle :: "pyfloat \<Rightarrow> pyfloat \<Rightarrow> bool" where
  "fle NaN y = False"
| "fle x NaN = False"
| "fle NInf y = True"
| "fle x PInf = True"
| "fle (Fin a) (Fin b) = (a \<le> b)"
| "fle x y = False"



text \<open>\<open>Series.sum()\<close>: NaN is skipped, the empty sum is 0.\<close>

definition sum_skipna :: "pyfloat list \<Rightarrow> pyfloat" where
  "sum_skipna xs = foldl fadd (Fin 0) (filter (\<lambda>x. x \<noteq> NaN) xs)"

text \<open>\<open>mean()\<close> of a group: NaN is skipped, a group with no value left has mean NaN.\<close>

definition mean_skipna :: "pyfloat list \<Rightarrow> pyfloat" where
  "mean_skipna xs =
     (let ys = filter (\<lambda>x. x \<noteq> NaN) xs
      in if ys = [] then NaN else fdiv (foldl fadd (Fin 0) ys) (Fin (real (length ys))))"

subsection \<open>Dates\<close>

record date =
  year :: int
  month :: int
  day :: int

definition is_leap :: "int \<Rightarrow> bool" where
  "is_leap y = (y mod 4 = 0 \<and> (y mod 100 \<noteq> 0 \<or> y mod 400 = 0))"

definition days_in_month :: "int \<Rightarrow> int \<Rightarrow> int" where
  "days_in_month y m =
     (if m = 2 then (if is_leap y then 29 else 28)
      else if m = 4 \<or> m = 6 \<or> m = 9 \<or> m = 11 then 30 else 31)"

text \<open>Days since 1970-01-01 in the proleptic Gregorian calendar.\<close>

definition days_from_civil :: "date \<Rightarrow> int" where
  "days_from_civil dt =
     (let y = (if month dt \<le> 2 then year dt - 1 else year dt);
          era = y div 400;
          yoe = y - era * 400;
          mp = (if month dt > 2 then month dt - 3 else month dt + 9);
          doy = (153 * mp + 2) div 5 + day dt - 1;
          doe = yoe * 365 + yoe div 4 - yoe div 100 + doy
      in era * 146097 + doe - 719468)"

text \<open>\<open>Timestamp.weekday()\<close>: Monday is 0; 1970-01-01 was a Thursday.\<close>

definition weekday :: "date \<Rightarrow> nat" where
  "weekday dt = nat ((days_from_civil dt + 3) mod 7)"

definition day_names :: "string list" where
  "day_names = [''Monday'', ''Tuesday'', ''Wednesday'', ''Thursday'', ''Friday'',
     ''Saturday'', ''Sunday'']"

definition day_name :: "date \<Rightarrow> string" where
  "day_name dt = day_names ! weekday dt"

subsection \<open>Data frames\<close>

text \<open>
  A cell is a string, a number, a timestamp (after \<open>pd.to_datetime\<close>) or the missing
  timestamp NaT. The missing value of a text column is \<open>N NaN\<close>, as in pandas.
\<close>

datatype cell = S string | N pyfloat | T date | NaT

definition isna :: "cell \<Rightarrow> bool" where
  "isna c = (c = N NaN \<or> c = NaT)"

text \<open>
  A data frame: the length of its index and its columns in order, each a label with its
  values. Labels can repeat (after a rename), so the columns are an association list.
\<close>

record dataframe =
  nrows :: nat
  cols :: "(string \<times> cell list) list"

definition columns :: "dataframe \<Rightarrow> string list" where
  "columns df = map fst (cols df)"


datatype exn = KeyError | ValueError | TypeError

text \<open>
  \<open>df[c]\<close> where the program needs one Series: a label that occurs twice selects a
  DataFrame, on which the operations of the program (\<open>pd.to_datetime\<close>, the assignment of
  the quotient to one column, \<open>groupby\<close>) raise.
\<close>

definition getitem :: "dataframe \<Rightarrow> string \<Rightarrow> exn + cell list" where
  "getitem df c =
     (case filter (\<lambda>p. fst p = c) (cols df) of
        [] \<Rightarrow> Inl KeyError
      | [p] \<Rightarrow> Inr (snd p)
      | p # q # ps \<Rightarrow> Inl ValueError)"

text \<open>\<open>df[c] = v\<close>: replaces the column of that label, or appends a new last column.\<close>

definition setitem :: "dataframe \<Rightarrow> string \<Rightarrow> cell list \<Rightarrow> dataframe" where
  "setitem df c v =
     (if c \<in> set (columns df)
      then df\<lparr>cols := map (\<lambda>p. if fst p = c then (c, v) else p) (cols df)\<rparr>
      else df\<lparr>cols := cols df @ [(c, v)]\<rparr>)"

subsection \<open>Schema normalisation (lines 56 to 75)\<close>

definition rename_map :: "(string \<times> string) list" where
  "rename_map = [(''Day'', ''Date''), (''Cost'', ''Spend''), (''Total conv. value'', ''Revenue'')]"

text \<open>\<open>df.rename(columns=m)\<close>: a label that is a key of \<open>m\<close> is replaced, the data stay.\<close>

definition rename :: "(string \<times> string) list \<Rightarrow> dataframe \<Rightarrow> dataframe" where
  "rename m df =
     df\<lparr>cols := map (\<lambda>p. (case map_of m (fst p) of Some n \<Rightarrow> n | None \<Rightarrow> fst p, snd p)) (cols df)\<rparr>"

definition audiences :: "string list" where
  "audiences = [''Gen Z'', ''Millennials'', ''Gen X'', ''Boomers'', ''All'']"

text \<open>
  \<open>np.random.choice(a, size=n)\<close> draws \<open>n\<close> indices into \<open>a\<close> and returns the elements
  there. The generator is a parameter of the model: \<open>rnd i\<close> is the raw number drawn for
  row \<open>i\<close>, reduced to an index of \<open>a\<close>.
\<close>

definition random_choice :: "(nat \<Rightarrow> nat) \<Rightarrow> string list \<Rightarrow> nat \<Rightarrow> string list" where
  "random_choice rnd a n = map (\<lambda>i. a ! (rnd i mod length a)) [0..<n]"

text \<open>
  The auto-fix block: the result is the flag of the advisory toast and the frame.
\<close>

definition autofix :: "(nat \<Rightarrow> nat) \<Rightarrow> dataframe \<Rightarrow> bool \<times> dataframe" where
  "autofix rnd df0 =
     (let df = rename rename_map df0
      in if ''Audience'' \<notin> set (columns df)
         then (True, setitem df ''Audience'' (map S (random_choice rnd audiences (nrows df))))
         else (False, df))"

definition req_cols :: "string list" where
  "req_cols = [''Campaign'', ''Date'', ''Spend'', ''Revenue'', ''Audience'']"

definition missing_cols :: "dataframe \<Rightarrow> string list" where
  "missing_cols df = filter (\<lambda>c. c \<notin> set (columns df)) req_cols"

text \<open>\<open>sep.join(xs)\<close>.\<close>

fun str_join :: "string \<Rightarrow> string list \<Rightarrow> string" where
  "str_join sep [] = []"
| "str_join sep [x] = x"
| "str_join sep (x # y # ys) = x @ sep @ str_join sep (y # ys)"

text \<open>The text of the error; it starts with the three bytes of the cross mark U+274C.\<close>

definition missing_message :: "string list \<Rightarrow> string" where
  "missing_message ms =
     [CHR 0xE2, CHR 0x9D, CHR 0x8C] @ '' Error: Your CSV is missing these columns: ''
       @ str_join '', '' ms"

text \<open>
  What a reader finds listed in such a text: the pieces between the separators, a comma
  followed by a space.
\<close>

fun push_char :: "char \<Rightarrow> string list \<Rightarrow> string list" where
  "push_char c [] = [[c]]"
| "push_char c (w # ws) = (c # w) # ws"

fun listed_names :: "string \<Rightarrow> string list" where
  "listed_names [] = [[]]"
| "listed_names [c] = [[c]]"
| "listed_names (c # d # cs) =
     (if c = CHR '','' \<and> d = CHR '' '' then [] # listed_names cs
      else push_char c (listed_names (d # cs)))"

subsection \<open>Date parsing (line 79) and the weekday (line 80)\<close>

definition is_digit :: "char \<Rightarrow> bool" where
  "is_digit c = (48 \<le> (of_char c :: nat) \<and> (of_char c :: nat) \<le> 57)"

definition digit :: "char \<Rightarrow> int" where
  "digit c = int (of_char c) - 48"

text \<open>
  The numeric form \<open>DD/MM/YYYY\<close>, read day first: two digits, a slash, two digits, a
  slash, four digits, a date of the calendar, within the years every pandas timestamp
  can hold.
\<close>

definition parse_dmy :: "string \<Rightarrow> date option" where
  "parse_dmy s =
     (if length s = 10 \<and> s ! 2 = CHR ''/'' \<and> s ! 5 = CHR ''/'' \<and>
         list_all is_digit [s ! 0, s ! 1, s ! 3, s ! 4, s ! 6, s ! 7, s ! 8, s ! 9]
      then
        (let d = 10 * digit (s ! 0) + digit (s ! 1);
             m = 10 * digit (s ! 3) + digit (s ! 4);
             y = 1000 * digit (s ! 6) + 100 * digit (s ! 7) + 10 * digit (s ! 8) + digit (s ! 9)
         in if 1 \<le> m \<and> m \<le> 12 \<and> 1 \<le> d \<and> d \<le> days_in_month y m \<and> 1678 \<le> y \<and> y \<le> 2261
            then Some \<lparr>year = y, month = m, day = d\<rparr>
            else None)
      else None)"

fun parse_dmy_cell :: "cell \<Rightarrow> date option" where
  "parse_dmy_cell (S s) = parse_dmy s"
| "parse_dmy_cell c = None"

text \<open>
  \<open>pd.to_datetime(col, dayfirst=True)\<close>. On a column whose cells all have the numeric
  form above, the format pandas infers is day first and every cell is read with it. What
  pandas does on any other column (other formats, mixed formats, missing cells, numbers)
  is the parameter \<open>other\<close>: it raises or returns one timestamp or NaT for each cell.
\<close>

type_synonym date_parser = "cell list \<Rightarrow> exn + date option list"

definition to_datetime :: "date_parser \<Rightarrow> cell list \<Rightarrow> exn + cell list" where
  "to_datetime other xs =
     (if list_all (\<lambda>x. parse_dmy_cell x \<noteq> None) xs
      then Inr (map (\<lambda>x. T (the (parse_dmy_cell x))) xs)
      else (case other xs of
              Inl e \<Rightarrow> Inl e
            | Inr ds \<Rightarrow>
                if length ds = length xs
                then Inr (map (\<lambda>d. case d of None \<Rightarrow> NaT | Some dt \<Rightarrow> T dt) ds)
                else Inl ValueError))"

text \<open>\<open>Series.dt.day_name()\<close>: the English name, NaN for NaT.\<close>

fun day_name_cell :: "cell \<Rightarrow> cell" where
  "day_name_cell (T dt) = S (day_name dt)"
| "day_name_cell c = N NaN"

subsection \<open>Grouping\<close>

text \<open>
  \<open>groupby\<close> drops the rows whose key is missing and orders the groups by key: numbers by
  value, strings by code point (the order of their UTF-8 bytes). \<open>key_rank\<close> maps a key
  to a linearly ordered value with that order; a column read from a CSV holds numbers or
  strings, so the rank of the kind only separates cases that do not meet.
\<close>

fun key_rank :: "cell \<Rightarrow> nat \<times> real \<times> string" where
  "key_rank (N NInf) = (0, 0, [])"
| "key_rank (N (Fin r)) = (1, r, [])"
| "key_rank (N PInf) = (2, 0, [])"
| "key_rank (S s) = (3, 0, s)"
| "key_rank (T dt) = (4, real_of_int (days_from_civil dt), [])"
| "key_rank (N NaN) = (5, 0, [])"
| "key_rank NaT = (6, 0, [])"

definition group_keys :: "cell list \<Rightarrow> cell list" where
  "group_keys ks = sort_key key_rank (remdups (filter (\<lambda>k. \<not> isna k) ks))"

text \<open>The values of the rows whose key is \<open>k\<close>, in row order.\<close>

definition group_rows :: "'k list \<Rightarrow> 'v list \<Rightarrow> 'k \<Rightarrow> 'v list" where
  "group_rows ks vs k = map snd (filter (\<lambda>p. fst p = k) (zip ks vs))"

definition group_keys2 :: "cell list \<Rightarrow> cell list \<Rightarrow> (cell \<times> cell) list" where
  "group_keys2 ks1 ks2 =
     sort_key (\<lambda>p. (key_rank (fst p), key_rank (snd p)))
       (remdups (filter (\<lambda>p. \<not> isna (fst p) \<and> \<not> isna (snd p)) (zip ks1 ks2)))"

subsection \<open>Feature engineering, KPIs and the tables of the views (lines 79 to 146)\<close>

fun as_float :: "cell \<Rightarrow> pyfloat option" where
  "as_float (N x) = Some x"
| "as_float c = None"

text \<open>
  Arithmetic on a column needs numbers: on a text column (dtype object) the division of
  line 83 raises TypeError.
\<close>

definition numeric :: "cell list \<Rightarrow> exn + pyfloat list" where
  "numeric xs =
     (if list_all (\<lambda>x. as_float x \<noteq> None) xs then Inr (map (\<lambda>x. the (as_float x)) xs)
      else Inl TypeError)"

definition total_roas_of :: "pyfloat \<Rightarrow> pyfloat \<Rightarrow> pyfloat" where
  "total_roas_of total_rev total_spend =
     (if gt_zero total_spend then fdiv total_rev total_spend else Fin 0)"

text \<open>Line 115 and 116: per audience the sums of Spend and Revenue and their quotient.\<close>

definition aud_df_of :: "cell list \<Rightarrow> pyfloat list \<Rightarrow> pyfloat list \<Rightarrow>
    (cell \<times> pyfloat \<times> pyfloat \<times> pyfloat) list" where
  "aud_df_of audience spend revenue =
     map (\<lambda>k. let s = sum_skipna (group_rows audience spend k);
                  r = sum_skipna (group_rows audience revenue k)
              in (k, s, r, fdiv r s))
       (group_keys audience)"

text \<open>Line 129: per (Day, Campaign) the sum of Revenue.\<close>

definition heat_data_of :: "cell list \<Rightarrow> cell list \<Rightarrow> pyfloat list \<Rightarrow>
    (cell \<times> cell \<times> pyfloat) list" where
  "heat_data_of days campaign revenue =
     map (\<lambda>k. (fst k, snd k, sum_skipna (group_rows (zip days campaign) revenue k)))
       (group_keys2 days campaign)"

definition days_order :: "string list" where
  "days_order = [''Monday'', ''Tuesday'', ''Wednesday'', ''Thursday'', ''Friday'',
     ''Saturday'', ''Sunday'']"

text \<open>Line 145: per campaign the means of Spend, Revenue and ROAS.\<close>

definition ranking_of :: "cell list \<Rightarrow> pyfloat list \<Rightarrow> pyfloat list \<Rightarrow> pyfloat list \<Rightarrow>
    (cell \<times> pyfloat \<times> pyfloat \<times> pyfloat) list" where
  "ranking_of campaign spend revenue roas =
     map (\<lambda>k. (k, mean_skipna (group_rows campaign spend k),
                 mean_skipna (group_rows campaign revenue k),
                 mean_skipna (group_rows campaign roas k)))
       (group_keys campaign)"

text \<open>
  What the program computes for the presenter: the frame with its derived columns (the
  scatter view reads it), the KPIs, the audience table, the heatmap table with the
  \<open>category_orders\<close> argument given to plotly beside it, and the grouped leaderboard
  before the sort of line 146.
\<close>

record dashboard =
  frame :: dataframe
  total_spend :: pyfloat
  total_rev :: pyfloat
  total_roas :: pyfloat
  aud_df :: "(cell \<times> pyfloat \<times> pyfloat \<times> pyfloat) list"
  heat_data :: "(cell \<times> cell \<times> pyfloat) list"
  category_orders :: "(string \<times> string list) list"
  ranking :: "(cell \<times> pyfloat \<times> pyfloat \<times> pyfloat) list"

text \<open>Sequencing of steps that can raise: the first exception ends the run.\<close>

definition and_then :: "exn + 'a \<Rightarrow> ('a \<Rightarrow> exn + 'b) \<Rightarrow> exn + 'b" where
  "and_then m f = (case m of Inl e \<Rightarrow> Inl e | Inr x \<Rightarrow> f x)"

text \<open>Lines 79 and 80: the parsed Date column and the Day column.\<close>

definition with_dates :: "date_parser \<Rightarrow> dataframe \<Rightarrow> exn + dataframe" where
  "with_dates other df =
     and_then (getitem df ''Date'') (\<lambda>raw_dates.
     and_then (to_datetime other raw_dates) (\<lambda>dates.
     Inr (setitem (setitem df ''Date'' dates) ''Day'' (map day_name_cell dates))))"

text \<open>Line 83: the quotient of the Revenue and the Spend column, row by row.\<close>

definition row_roas :: "dataframe \<Rightarrow> exn + pyfloat list" where
  "row_roas df =
     and_then (getitem df ''Revenue'') (\<lambda>rev_cells.
     and_then (getitem df ''Spend'') (\<lambda>spend_cells.
     and_then (numeric rev_cells) (\<lambda>revenue.
     and_then (numeric spend_cells) (\<lambda>spend.
     Inr (map (\<lambda>p. fdiv (fst p) (snd p)) (zip revenue spend))))))"

text \<open>The numbers of a column that line 83 has already read as numbers.\<close>

definition floats :: "dataframe \<Rightarrow> string \<Rightarrow> exn + pyfloat list" where
  "floats df c = and_then (getitem df c) numeric"

text \<open>Lines 84 to 146, on the frame with its derived columns.\<close>

definition views :: "dataframe \<Rightarrow> exn + dashboard" where
  "views df =
     and_then (floats df ''Spend'') (\<lambda>spend.
     and_then (floats df ''Revenue'') (\<lambda>revenue.
     and_then (floats df ''ROAS'') (\<lambda>roas.
     and_then (getitem df ''Audience'') (\<lambda>audience.
     and_then (getitem df ''Day'') (\<lambda>days.
     and_then (getitem df ''Campaign'') (\<lambda>campaign.
     Inr \<lparr>frame = df,
          total_spend = sum_skipna spend,
          total_rev = sum_skipna revenue,
          total_roas = total_roas_of (sum_skipna revenue) (sum_skipna spend),
          aud_df = aud_df_of audience spend revenue,
          heat_data = heat_data_of days campaign revenue,
          category_orders = [(''Day'', days_order)],
          ranking = ranking_of campaign spend revenue roas\<rparr>))))))"

definition analyze :: "date_parser \<Rightarrow> dataframe \<Rightarrow> exn + dashboard" where
  "analyze other df0 =
     and_then (with_dates other df0) (\<lambda>df2.
     and_then (row_roas df2) (\<lambda>roas.
     views (setitem df2 ''ROAS'' (map N roas))))"

subsection \<open>The whole run on an uploaded frame (lines 52 to 159)\<close>

datatype outcome = MissingColumnsError string | UnexpectedError exn | Rendered dashboard

text \<open>The result: whether the advisory toast was shown, and what was displayed.\<close>

definition app :: "(nat \<Rightarrow> nat) \<Rightarrow> date_parser \<Rightarrow> dataframe \<Rightarrow> bool \<times> outcome" where
  "app rnd other df0 =
     (let (toast, df) = autofix rnd df0
      in if missing_cols df \<noteq> [] then (toast, MissingColumnsError (missing_message (missing_cols df)))
         else (case analyze other df of
                 Inl e \<Rightarrow> (toast, UnexpectedError e)
               | Inr v \<Rightarrow> (toast, Rendered v)))"

subsection \<open>The sort of the leaderboard (line 146)\<close>

text \<open>
  \<open>ranking.sort_values(by='ROAS', ascending=False)\<close> leaves \<open>kind\<close> at its default,
  quicksort, which pandas documents as not stable. What the call guarantees is a
  rearrangement of the rows with the keys in descending order and the NaN keys last; the
  order among equal keys is the library's choice. The model is therefore a predicate on
  the table before and the table after.
\<close>

definition roas_of :: "cell \<times> pyfloat \<times> pyfloat \<times> pyfloat \<Rightarrow> pyfloat" where
  "roas_of r = snd (snd (snd r))"

text \<open>Descending with NaN last: of two keys in order, the later is NaN or not above the earlier.\<close>

definition desc_na_last :: "pyfloat list \<Rightarrow> bool" where
  "desc_na_last ks = sorted_wrt (\<lambda>a b. b = NaN \<or> fle b a) ks"

definition sort_values_desc :: "(cell \<times> pyfloat \<times> pyfloat \<times> pyfloat) list \<Rightarrow>
    (cell \<times> pyfloat \<times> pyfloat \<times> pyfloat) list \<Rightarrow> bool" where
  "sort_values_desc tbl out = (mset out = mset tbl \<and> desc_na_last (map roas_of out))"

text \<open>\<open>a\<close> stands before \<open>b\<close> in \<open>xs\<close>.\<close>

definition before :: "'a list \<Rightarrow> 'a \<Rightarrow> 'a \<Rightarrow> bool" where
  "before xs a b = (b \<in> set (drop 1 (dropWhile (\<lambda>x. x \<noteq> a) xs)))"

text \<open>Rows with equal keys keep the order they have in \<open>tbl\<close>.\<close>

definition ties_keep_order :: "(cell \<times> pyfloat \<times> pyfloat \<times> pyfloat) list \<Rightarrow>
    (cell \<times> pyfloat \<times> pyfloat \<times> pyfloat) list \<Rightarrow> bool" where
  "ties_keep_order tbl out =
     list_all (\<lambda>a. list_all (\<lambda>b. \<not> (roas_of a = roas_of b \<and> before tbl a b \<and> before out b a)) tbl) tbl"

subsection \<open>Reading a result\<close>



subsection \<open>Frames used as concrete inputs\<close>

definition df_w1 :: dataframe where
  "df_w1 = \<lparr>nrows = 1, cols = [(''Campaign'', [S ''X'']), (''Day'', [S ''01/02/2025'']),
     (''Cost'', [N (Fin 100)])]\<rparr>"

definition df_w1b :: dataframe where
  "df_w1b = \<lparr>nrows = 1, cols = [(''campaign'', [S ''X'']), (''Day'', [S ''01/02/2025'']),
     (''Cost'', [N (Fin 100)]), (''Audience'', [S ''All''])]\<rparr>"

definition df_w6 :: dataframe where
  "df_w6 = \<lparr>nrows = 1, cols = [(''day'', [S ''Mon'']), (''Day'', [S ''01/02/2025'']),
     (''Cost'', [N (Fin 5)]), (''Total conv. value'', [N (Fin 7)]), (''COST'', [N (Fin 1)])]\<rparr>"

definition df_w10 :: dataframe where
  "df_w10 = \<lparr>nrows = 2, cols = [(''Clicks'', [N (Fin 1), N (Fin 2)])]\<rparr>"

definition df_w7 :: dataframe where
  "df_w7 = \<lparr>nrows = 2, cols = [(''Campaign'', [S ''X'', S ''Y'']),
     (''Cost'', [N (Fin 100), N (Fin 50)])]\<rparr>"

definition df_w7b :: dataframe where
  "df_w7b = \<lparr>nrows = 1, cols = [(''Audience'', [S ''Retirees'']), (''Cost'', [N (Fin 100)])]\<rparr>"








section \<open>Properties\<close>

subsection \<open>Schema normalisation\<close>


lemma rename_alias_label:
  "(case map_of rename_map n of Some n' \<Rightarrow> n' | None \<Rightarrow> n) =
     (if n = ''Day'' then ''Date'' else if n = ''Cost'' then ''Spend''
      else if n = ''Total conv. value'' then ''Revenue'' else n)"
  by (simp add: rename_map_def)

lemma cols_rename:
  "cols (rename rename_map df) =
     map (\<lambda>p. (if fst p = ''Day'' then ''Date'' else if fst p = ''Cost'' then ''Spend''
      else if fst p = ''Total conv. value'' then ''Revenue'' else fst p, snd p)) (cols df)"
  unfolding rename_def by (simp add: rename_alias_label)

lemma nrows_rename: "nrows (rename m df) = nrows df"
  by (simp add: rename_def)

lemma columns_setitem_new:
  "c \<notin> set (columns df) \<Longrightarrow> columns (setitem df c v) = columns df @ [c]"
  by (simp add: setitem_def columns_def)

lemma audience_in_autofix: "''Audience'' \<in> set (columns (snd (autofix rnd df)))"
  by (simp add: autofix_def Let_def columns_setitem_new)

lemma set_missing_cols: "set (missing_cols df) = set req_cols - set (columns df)"
  by (auto simp: missing_cols_def)

lemma distinct_missing_cols: "distinct (missing_cols df)"
  by (simp add: missing_cols_def req_cols_def)

lemma app_outcome:
  "snd (app rnd other df) =
     (if missing_cols (snd (autofix rnd df)) \<noteq> []
      then MissingColumnsError (missing_message (missing_cols (snd (autofix rnd df))))
      else (case analyze other (snd (autofix rnd df)) of
              Inl e \<Rightarrow> UnexpectedError e | Inr v \<Rightarrow> Rendered v))"
  by (simp add: app_def split: prod.splits sum.splits)

lemma app_toast: "fst (app rnd other df) = fst (autofix rnd df)"
  by (simp add: app_def split: prod.splits sum.splits)

lemma req_col_not_alias:
  "c \<in> set req_cols \<Longrightarrow> c \<noteq> ''Day'' \<and> c \<noteq> ''Cost'' \<and> c \<noteq> ''Total conv. value''"
  by (auto simp: req_cols_def)

lemma columns_rename_superset:
  assumes "c \<in> set req_cols" and "c \<in> set (columns df)"
  shows "c \<in> set (columns (rename rename_map df))"
proof -
  from assms(2) obtain p where p: "p \<in> set (cols df)" "fst p = c"
    by (auto simp: columns_def)
  let ?f = "\<lambda>p. (if fst p = ''Day'' then ''Date'' else if fst p = ''Cost'' then ''Spend''
      else if fst p = ''Total conv. value'' then ''Revenue'' else fst p, snd p)"
  have "?f p \<in> set (cols (rename rename_map df))"
    unfolding cols_rename using p(1) by (simp only: set_map image_eqI)
  moreover have "fst (?f p) = c"
    using req_col_not_alias [OF assms(1)] p(2) by simp
  ultimately show ?thesis
    unfolding columns_def set_map by (metis image_eqI)
qed

lemma snd_autofix:
  "snd (autofix rnd df) =
     (if ''Audience'' \<notin> set (columns (rename rename_map df))
      then setitem (rename rename_map df) ''Audience''
             (map S (random_choice rnd audiences (nrows df)))
      else rename rename_map df)"
  by (simp add: autofix_def Let_def nrows_rename)

lemma fst_autofix:
  "fst (autofix rnd df) = (''Audience'' \<notin> set (columns (rename rename_map df)))"
  by (simp add: autofix_def Let_def)

lemma columns_autofix_superset:
  assumes "c \<in> set req_cols" and "c \<in> set (columns df)"
  shows "c \<in> set (columns (snd (autofix rnd df)))"
  using columns_rename_superset [OF assms]
  by (simp add: snd_autofix columns_setitem_new)

lemma missing_cols_empty_iff:
  "missing_cols df \<noteq> [] \<longleftrightarrow> set req_cols - set (columns df) \<noteq> {}"
  using set_missing_cols [of df] by (metis set_empty)

lemma diff_singleton_mem: "A - B = {r} \<Longrightarrow> x \<in> A \<Longrightarrow> x \<noteq> r \<Longrightarrow> x \<in> B"
  by auto

lemma diff_singleton_notin: "A - B = {r} \<Longrightarrow> r \<notin> B"
  by auto

lemma missing_only_revenue:
  assumes "set req_cols - set (columns df) = {''Revenue''}"
  shows "missing_cols df = [''Revenue'']"
proof -
  have a: "''Campaign'' \<in> set (columns df)"
    by (rule diff_singleton_mem [OF assms]) (simp_all add: req_cols_def)
  have b: "''Date'' \<in> set (columns df)"
    by (rule diff_singleton_mem [OF assms]) (simp_all add: req_cols_def)
  have c: "''Spend'' \<in> set (columns df)"
    by (rule diff_singleton_mem [OF assms]) (simp_all add: req_cols_def)
  have d: "''Audience'' \<in> set (columns df)"
    by (rule diff_singleton_mem [OF assms]) (simp_all add: req_cols_def)
  have e: "''Revenue'' \<notin> set (columns df)"
    by (rule diff_singleton_notin [OF assms])
  show ?thesis using a b c d e by (simp add: missing_cols_def req_cols_def)
qed

lemma listed_names_single:
  "CHR '','' \<notin> set x \<Longrightarrow> listed_names x = [x]"
proof (induction x)
  case Nil
  then show ?case by simp
next
  case (Cons c x)
  then have ih: "listed_names x = [x]" and c: "c \<noteq> CHR '',''"
    by auto
  show ?case
  proof (cases x)
    case Nil
    then show ?thesis by simp
  next
    case (Cons d cs)
    have "listed_names (c # d # cs) = push_char c (listed_names (d # cs))"
      using c by simp
    then show ?thesis using ih by (simp add: Cons)
  qed
qed

lemma listed_names_append:
  "CHR '','' \<notin> set x \<Longrightarrow> listed_names (x @ '', '' @ rest) = x # listed_names rest"
proof (induction x)
  case Nil
  then show ?case by simp
next
  case (Cons c x)
  then have ih: "listed_names (x @ '', '' @ rest) = x # listed_names rest" and c: "c \<noteq> CHR '',''"
    by auto
  obtain d cs where dcs: "x @ '', '' @ rest = d # cs"
    by (cases "x @ '', '' @ rest") simp_all
  have "listed_names ((c # x) @ '', '' @ rest) = listed_names (c # d # cs)"
    using dcs by simp
  also have "\<dots> = push_char c (listed_names (d # cs))"
    using c by simp
  also have "\<dots> = (c # x) # listed_names rest"
    unfolding dcs [symmetric] ih by simp
  finally show ?case .
qed

lemma listed_names_str_join:
  assumes "\<forall>x\<in>set xs. CHR '','' \<notin> set x" and "xs \<noteq> []"
  shows "listed_names (str_join '', '' xs) = xs"
  using assms
proof (induction xs)
  case Nil
  then show ?case by simp
next
  case (Cons x xs)
  then have x: "CHR '','' \<notin> set x" by simp
  show ?case
  proof (cases xs)
    case Nil
    then show ?thesis using x by (simp add: listed_names_single)
  next
    case (Cons y ys)
    then have ih: "listed_names (str_join '', '' xs) = xs"
      using Cons.IH Cons.prems by simp
    have eq: "str_join '', '' (x # xs) = x @ '', '' @ str_join '', '' xs"
      unfolding Cons by (rule str_join.simps)
    have "listed_names (str_join '', '' (x # xs)) =
        listed_names (x @ '', '' @ str_join '', '' xs)"
      by (simp only: eq)
    also have "\<dots> = x # listed_names (str_join '', '' xs)"
      using x by (rule listed_names_append)
    also have "\<dots> = x # xs"
      by (simp only: ih)
    finally show ?thesis .
  qed
qed

lemma req_cols_no_comma: "\<forall>x\<in>set req_cols. CHR '','' \<notin> set x"
  by (simp add: req_cols_def)

lemma listed_names_missing:
  assumes "missing_cols df \<noteq> []"
  shows "listed_names (str_join '', '' (missing_cols df)) = missing_cols df"
proof (rule listed_names_str_join [OF _ assms])
  have "set (missing_cols df) \<subseteq> set req_cols" by (simp add: missing_cols_def)
  then show "\<forall>x\<in>set (missing_cols df). CHR '','' \<notin> set x"
    using req_cols_no_comma by blast
qed


text \<open>
  Claim C1. The missing-columns error is displayed exactly when, after the renaming and
  the synthesis of Audience, some required column is not among the columns. Its message
  is the fixed prefix followed by a text in which exactly the missing names are listed,
  each once, in the order of \<open>req_cols\<close>, separated by a comma and a space, and nothing
  is rendered. A frame that lacks only Revenue gets the message that lists Revenue alone;
  an upload that has all five required columns never gets the error.
\<close>

theorem missing_columns_error_iff:
  "((\<exists>msg. snd (app rnd other df) = MissingColumnsError msg) \<longleftrightarrow>
      set req_cols - set (columns (snd (autofix rnd df))) \<noteq> {}) \<and>
   (\<forall>msg. snd (app rnd other df) = MissingColumnsError msg \<longrightarrow>
      msg = missing_message (missing_cols (snd (autofix rnd df))) \<and>
      (\<exists>body. msg = [CHR 0xE2, CHR 0x9D, CHR 0x8C]
           @ '' Error: Your CSV is missing these columns: '' @ body \<and>
         listed_names body = missing_cols (snd (autofix rnd df))) \<and>
      set (missing_cols (snd (autofix rnd df))) =
        set req_cols - set (columns (snd (autofix rnd df))) \<and>
      distinct (missing_cols (snd (autofix rnd df))) \<and>
      (\<forall>v. snd (app rnd other df) \<noteq> Rendered v)) \<and>
   (set req_cols - set (columns (snd (autofix rnd df))) = {''Revenue''} \<longrightarrow>
      snd (app rnd other df) = MissingColumnsError (missing_message [''Revenue'']) \<and>
      missing_message [''Revenue''] = [CHR 0xE2, CHR 0x9D, CHR 0x8C]
        @ '' Error: Your CSV is missing these columns: Revenue'') \<and>
   (set req_cols \<subseteq> set (columns df) \<longrightarrow>
      (\<forall>msg. snd (app rnd other df) \<noteq> MissingColumnsError msg))"
proof (intro conjI)
  show "(\<exists>msg. snd (app rnd other df) = MissingColumnsError msg) \<longleftrightarrow>
      set req_cols - set (columns (snd (autofix rnd df))) \<noteq> {}"
    unfolding missing_cols_empty_iff [symmetric]
    by (simp add: app_outcome split: sum.splits)
  show "\<forall>msg. snd (app rnd other df) = MissingColumnsError msg \<longrightarrow>
      msg = missing_message (missing_cols (snd (autofix rnd df))) \<and>
      (\<exists>body. msg = [CHR 0xE2, CHR 0x9D, CHR 0x8C]
           @ '' Error: Your CSV is missing these columns: '' @ body \<and>
         listed_names body = missing_cols (snd (autofix rnd df))) \<and>
      set (missing_cols (snd (autofix rnd df))) =
        set req_cols - set (columns (snd (autofix rnd df))) \<and>
      distinct (missing_cols (snd (autofix rnd df))) \<and>
      (\<forall>v. snd (app rnd other df) \<noteq> Rendered v)"
  proof (intro allI impI)
    fix msg
    assume e: "snd (app rnd other df) = MissingColumnsError msg"
    have ne: "missing_cols (snd (autofix rnd df)) \<noteq> []"
      using e by (auto simp: app_outcome split: sum.splits if_splits)
    have m: "msg = missing_message (missing_cols (snd (autofix rnd df)))"
      using e by (auto simp: app_outcome split: sum.splits if_splits)
    have b: "\<exists>body. msg = [CHR 0xE2, CHR 0x9D, CHR 0x8C]
           @ '' Error: Your CSV is missing these columns: '' @ body \<and>
         listed_names body = missing_cols (snd (autofix rnd df))"
    proof (intro exI conjI)
      show "msg = [CHR 0xE2, CHR 0x9D, CHR 0x8C]
           @ '' Error: Your CSV is missing these columns: ''
           @ str_join '', '' (missing_cols (snd (autofix rnd df)))"
        unfolding m missing_message_def ..
      show "listed_names (str_join '', '' (missing_cols (snd (autofix rnd df))))
          = missing_cols (snd (autofix rnd df))"
        using ne by (rule listed_names_missing)
    qed
    have r: "\<forall>v. snd (app rnd other df) \<noteq> Rendered v"
      using e by simp
    show "msg = missing_message (missing_cols (snd (autofix rnd df))) \<and>
      (\<exists>body. msg = [CHR 0xE2, CHR 0x9D, CHR 0x8C]
           @ '' Error: Your CSV is missing these columns: '' @ body \<and>
         listed_names body = missing_cols (snd (autofix rnd df))) \<and>
      set (missing_cols (snd (autofix rnd df))) =
        set req_cols - set (columns (snd (autofix rnd df))) \<and>
      distinct (missing_cols (snd (autofix rnd df))) \<and>
      (\<forall>v. snd (app rnd other df) \<noteq> Rendered v)"
      using m b r set_missing_cols distinct_missing_cols by blast
  qed
  show "set req_cols - set (columns (snd (autofix rnd df))) = {''Revenue''} \<longrightarrow>
      snd (app rnd other df) = MissingColumnsError (missing_message [''Revenue'']) \<and>
      missing_message [''Revenue''] = [CHR 0xE2, CHR 0x9D, CHR 0x8C]
        @ '' Error: Your CSV is missing these columns: Revenue''"
    by (simp add: app_outcome missing_only_revenue missing_message_def)
  show "set req_cols \<subseteq> set (columns df) \<longrightarrow>
      (\<forall>msg. snd (app rnd other df) \<noteq> MissingColumnsError msg)"
  proof
    assume sub: "set req_cols \<subseteq> set (columns df)"
    have "set req_cols - set (columns (snd (autofix rnd df))) = {}"
      using sub columns_autofix_superset [of _ df rnd] by auto
    then have "missing_cols (snd (autofix rnd df)) = []"
      using missing_cols_empty_iff by blast
    then show "\<forall>msg. snd (app rnd other df) \<noteq> MissingColumnsError msg"
      by (simp add: app_outcome split: sum.splits)
  qed
qed

lemma df_w1_cols: "columns (snd (autofix rnd df_w1)) = [''Campaign'', ''Date'', ''Spend'', ''Audience'']"
  by (simp add: snd_autofix cols_rename columns_def df_w1_def setitem_def)

lemma df_w1b_cols:
  "columns (snd (autofix rnd df_w1b)) = [''campaign'', ''Date'', ''Spend'', ''Audience'']"
  by (simp add: snd_autofix cols_rename columns_def df_w1b_def setitem_def)

lemma df_w1b_missing: "missing_cols (snd (autofix rnd df_w1b)) = [''Campaign'', ''Revenue'']"
  by (simp add: missing_cols_def req_cols_def df_w1b_cols)

theorem missing_columns_error_iff_witness:
  "set req_cols - set (columns (snd (autofix (\<lambda>i. 0) df_w1))) = {''Revenue''} \<and>
   snd (app (\<lambda>i. 0) (\<lambda>xs. Inl ValueError) df_w1) =
     MissingColumnsError ([CHR 0xE2, CHR 0x9D, CHR 0x8C]
        @ '' Error: Your CSV is missing these columns: Revenue'') \<and>
   set req_cols - set (columns (snd (autofix (\<lambda>i. 0) df_w1b))) = {''Campaign'', ''Revenue''} \<and>
   snd (app (\<lambda>i. 0) (\<lambda>xs. Inl ValueError) df_w1b) =
     MissingColumnsError ([CHR 0xE2, CHR 0x9D, CHR 0x8C]
        @ '' Error: Your CSV is missing these columns: Campaign, Revenue'') \<and>
   listed_names ''Campaign, Revenue'' = [''Campaign'', ''Revenue'']"
proof -
  have h: "set req_cols - set (columns (snd (autofix (\<lambda>i. 0) df_w1))) = {''Revenue''}"
    by (simp add: df_w1_cols req_cols_def insert_Diff_if)
  have 1: "snd (app (\<lambda>i. 0) (\<lambda>xs. Inl ValueError) df_w1) =
     MissingColumnsError ([CHR 0xE2, CHR 0x9D, CHR 0x8C]
        @ '' Error: Your CSV is missing these columns: Revenue'')"
    using h missing_columns_error_iff [of "\<lambda>i. 0" "\<lambda>xs. Inl ValueError" df_w1]
    by simp
  have h2: "set req_cols - set (columns (snd (autofix (\<lambda>i. 0) df_w1b)))
      = {''Campaign'', ''Revenue''}"
    by (simp add: df_w1b_cols req_cols_def insert_Diff_if)
  then have ne: "set req_cols - set (columns (snd (autofix (\<lambda>i. 0) df_w1b))) \<noteq> {}"
    by simp
  note t = missing_columns_error_iff [of "\<lambda>i. 0" "\<lambda>xs. Inl ValueError" df_w1b]
  from t ne obtain msg where
    msg: "snd (app (\<lambda>i. 0) (\<lambda>xs. Inl ValueError) df_w1b) = MissingColumnsError msg"
    by blast
  with t have "msg = missing_message (missing_cols (snd (autofix (\<lambda>i. 0) df_w1b)))"
    by blast
  then have "msg = [CHR 0xE2, CHR 0x9D, CHR 0x8C]
        @ '' Error: Your CSV is missing these columns: Campaign, Revenue''"
    by (simp add: df_w1b_missing missing_message_def)
  with msg have 2: "snd (app (\<lambda>i. 0) (\<lambda>xs. Inl ValueError) df_w1b) =
     MissingColumnsError ([CHR 0xE2, CHR 0x9D, CHR 0x8C]
        @ '' Error: Your CSV is missing these columns: Campaign, Revenue'')"
    by simp
  have 3: "listed_names ''Campaign, Revenue'' = [''Campaign'', ''Revenue'']"
    by simp
  show ?thesis using h 1 h2 2 3 by blast
qed

text \<open>
  Claim C6. Renaming with the fixed alias map keeps the number of rows, the number and
  order of the columns and the data of every column; the label of a column becomes Date,
  Spend or Revenue when it is exactly \<open>Day\<close>, \<open>Cost\<close> or \<open>Total conv. value\<close>, and
  stays what it was in every other case (so \<open>day\<close> or \<open>COST\<close> are not renamed).
\<close>

theorem rename_exact_match:
  "nrows (rename rename_map df) = nrows df \<and>
   length (cols (rename rename_map df)) = length (cols df) \<and>
   (\<forall>i < length (cols df).
      snd (cols (rename rename_map df) ! i) = snd (cols df ! i) \<and>
      fst (cols (rename rename_map df) ! i) =
        (if fst (cols df ! i) = ''Day'' then ''Date''
         else if fst (cols df ! i) = ''Cost'' then ''Spend''
         else if fst (cols df ! i) = ''Total conv. value'' then ''Revenue''
         else fst (cols df ! i)))"
  by (simp add: cols_rename nrows_rename)

theorem rename_exact_match_witness:
  "cols (rename rename_map df_w6) ! 0 = (''day'', [S ''Mon'']) \<and>
   cols (rename rename_map df_w6) ! 1 = (''Date'', [S ''01/02/2025'']) \<and>
   cols (rename rename_map df_w6) ! 2 = (''Spend'', [N (Fin 5)]) \<and>
   cols (rename rename_map df_w6) ! 3 = (''Revenue'', [N (Fin 7)]) \<and>
   cols (rename rename_map df_w6) ! 4 = (''COST'', [N (Fin 1)]) \<and>
   length (cols (rename rename_map df_w6)) = 5"
proof -
  have l: "length (cols df_w6) = 5" by (simp add: df_w6_def)
  note t = rename_exact_match [of df_w6]
  have n: "\<And>i. i < 5 \<Longrightarrow> snd (cols (rename rename_map df_w6) ! i) = snd (cols df_w6 ! i) \<and>
      fst (cols (rename rename_map df_w6) ! i) =
        (if fst (cols df_w6 ! i) = ''Day'' then ''Date''
         else if fst (cols df_w6 ! i) = ''Cost'' then ''Spend''
         else if fst (cols df_w6 ! i) = ''Total conv. value'' then ''Revenue''
         else fst (cols df_w6 ! i))"
    using t l by simp
  have "cols (rename rename_map df_w6) ! 0 = (''day'', [S ''Mon''])"
    using n [of 0] by (simp add: df_w6_def prod_eq_iff)
  moreover have "cols (rename rename_map df_w6) ! 1 = (''Date'', [S ''01/02/2025''])"
    using n [of 1] by (simp add: df_w6_def prod_eq_iff)
  moreover have "cols (rename rename_map df_w6) ! 2 = (''Spend'', [N (Fin 5)])"
    using n [of 2] by (simp add: df_w6_def prod_eq_iff)
  moreover have "cols (rename rename_map df_w6) ! 3 = (''Revenue'', [N (Fin 7)])"
    using n [of 3] by (simp add: df_w6_def prod_eq_iff)
  moreover have "cols (rename rename_map df_w6) ! 4 = (''COST'', [N (Fin 1)])"
    using n [of 4] by (simp add: df_w6_def prod_eq_iff)
  moreover have "length (cols (rename rename_map df_w6)) = 5"
    using t l by simp
  ultimately show ?thesis by simp
qed

text \<open>
  Claim C10. After the auto-fix block the frame always has an Audience column, so the
  list of missing columns never contains Audience: the names an error message reports
  are among Campaign, Date, Spend and Revenue.
\<close>

theorem audience_never_reported_missing:
  "''Audience'' \<in> set (columns (snd (autofix rnd df))) \<and>
   ''Audience'' \<notin> set (missing_cols (snd (autofix rnd df))) \<and>
   set (missing_cols (snd (autofix rnd df))) \<subseteq> {''Campaign'', ''Date'', ''Spend'', ''Revenue''} \<and>
   (\<forall>msg. snd (app rnd other df) = MissingColumnsError msg \<longrightarrow>
      msg = missing_message (missing_cols (snd (autofix rnd df))))"
proof -
  have a: "''Audience'' \<in> set (columns (snd (autofix rnd df)))"
    by (rule audience_in_autofix)
  have b: "''Audience'' \<notin> set (missing_cols (snd (autofix rnd df)))"
    using a by (simp add: missing_cols_def)
  have "set (missing_cols (snd (autofix rnd df))) \<subseteq> set req_cols"
    by (simp add: missing_cols_def)
  then have c: "set (missing_cols (snd (autofix rnd df))) \<subseteq>
      {''Campaign'', ''Date'', ''Spend'', ''Revenue''}"
    using b unfolding req_cols_def by auto
  have d: "\<forall>msg. snd (app rnd other df) = MissingColumnsError msg \<longrightarrow>
      msg = missing_message (missing_cols (snd (autofix rnd df)))"
    by (simp add: app_outcome split: sum.splits)
  show ?thesis using a b c d by blast
qed

lemma df_w10_missing:
  "missing_cols (snd (autofix rnd df_w10)) = [''Campaign'', ''Date'', ''Spend'', ''Revenue'']"
  by (simp add: missing_cols_def req_cols_def snd_autofix cols_rename columns_def df_w10_def
      setitem_def)

theorem audience_never_reported_missing_witness:
  "snd (app (\<lambda>i. 3) (\<lambda>xs. Inl ValueError) df_w10) =
     MissingColumnsError ([CHR 0xE2, CHR 0x9D, CHR 0x8C]
        @ '' Error: Your CSV is missing these columns: Campaign, Date, Spend, Revenue'') \<and>
   ''Audience'' \<notin> set (missing_cols (snd (autofix (\<lambda>i. 3) df_w10)))"
proof -
  have o: "snd (app (\<lambda>i. 3) (\<lambda>xs. Inl ValueError) df_w10) =
     MissingColumnsError ([CHR 0xE2, CHR 0x9D, CHR 0x8C]
        @ '' Error: Your CSV is missing these columns: Campaign, Date, Spend, Revenue'')"
    by (simp add: app_outcome df_w10_missing missing_message_def)
  show ?thesis
    using o audience_never_reported_missing [of "\<lambda>i. 3" df_w10 "\<lambda>xs. Inl ValueError"]
    by simp
qed

lemma filter_label_rename:
  assumes "c \<noteq> ''Date''" "c \<noteq> ''Spend''" "c \<noteq> ''Revenue''"
    "c \<noteq> ''Day''" "c \<noteq> ''Cost''" "c \<noteq> ''Total conv. value''"
  shows "filter (\<lambda>p. fst p = c) (cols (rename rename_map df)) = filter (\<lambda>p. fst p = c) (cols df)"
proof -
  have "filter (\<lambda>p. fst p = c)
          (map (\<lambda>p. (if fst p = ''Day'' then ''Date'' else if fst p = ''Cost'' then ''Spend''
             else if fst p = ''Total conv. value'' then ''Revenue'' else fst p, snd p)) xs)
        = filter (\<lambda>p. fst p = c) xs" for xs :: "(string \<times> cell list) list"
    using assms by (induction xs) auto
  then show ?thesis by (simp only: cols_rename)
qed

lemma getitem_rename:
  assumes "c \<noteq> ''Date''" "c \<noteq> ''Spend''" "c \<noteq> ''Revenue''"
    "c \<noteq> ''Day''" "c \<noteq> ''Cost''" "c \<noteq> ''Total conv. value''"
  shows "getitem (rename rename_map df) c = getitem df c"
  unfolding getitem_def filter_label_rename [OF assms] ..

lemma columns_rename_iff:
  assumes "c \<noteq> ''Date''" "c \<noteq> ''Spend''" "c \<noteq> ''Revenue''"
    "c \<noteq> ''Day''" "c \<noteq> ''Cost''" "c \<noteq> ''Total conv. value''"
  shows "c \<in> set (columns (rename rename_map df)) \<longleftrightarrow> c \<in> set (columns df)"
proof -
  have "c \<in> set (columns d) \<longleftrightarrow> filter (\<lambda>p. fst p = c) (cols d) \<noteq> []" for d
    by (auto simp: columns_def filter_empty_conv)
  then show ?thesis using filter_label_rename [OF assms] by simp
qed

lemma getitem_setitem_new:
  assumes "c \<notin> set (columns df)"
  shows "getitem (setitem df c v) c = Inr v"
proof -
  have "filter (\<lambda>p. fst p = c) (cols df) = []"
    using assms by (auto simp: columns_def filter_empty_conv)
  then show ?thesis using assms by (simp add: getitem_def setitem_def)
qed

lemma cols_setitem_new:
  "c \<notin> set (columns df) \<Longrightarrow> cols (setitem df c v) = cols df @ [(c, v)]"
  by (simp add: setitem_def)

lemma length_random_choice: "length (random_choice rnd a n) = n"
  by (simp add: random_choice_def)

lemma set_random_choice: "a \<noteq> [] \<Longrightarrow> set (random_choice rnd a n) \<subseteq> set a"
  by (auto simp: random_choice_def)

text \<open>
  Claim C7. An Audience column is synthesised (and the advisory toast shown) exactly when
  the frame has no Audience column after renaming, which is when the upload has none.
  Then the frame gets one new last column Audience with one value for every row, each of
  the five labels Gen Z, Millennials, Gen X, Boomers, All. When the upload has an Audience
  column, the auto-fix block is the renaming alone and the Audience values are untouched.
\<close>

theorem audience_synthesis:
  "(fst (app rnd other df) \<longleftrightarrow> ''Audience'' \<notin> set (columns (rename rename_map df))) \<and>
   (''Audience'' \<in> set (columns (rename rename_map df)) \<longleftrightarrow> ''Audience'' \<in> set (columns df)) \<and>
   (''Audience'' \<notin> set (columns df) \<longrightarrow>
      cols (snd (autofix rnd df)) =
        cols (rename rename_map df)
          @ [(''Audience'', map S (random_choice rnd audiences (nrows df)))] \<and>
      getitem (snd (autofix rnd df)) ''Audience'' =
        Inr (map S (random_choice rnd audiences (nrows df))) \<and>
      length (random_choice rnd audiences (nrows df)) = nrows df \<and>
      set (random_choice rnd audiences (nrows df)) \<subseteq>
        {''Gen Z'', ''Millennials'', ''Gen X'', ''Boomers'', ''All''}) \<and>
   (''Audience'' \<in> set (columns df) \<longrightarrow>
      snd (autofix rnd df) = rename rename_map df \<and>
      filter (\<lambda>p. fst p = ''Audience'') (cols (snd (autofix rnd df))) =
        filter (\<lambda>p. fst p = ''Audience'') (cols df) \<and>
      getitem (snd (autofix rnd df)) ''Audience'' = getitem df ''Audience'')"
proof -
  have iff: "''Audience'' \<in> set (columns (rename rename_map df)) \<longleftrightarrow> ''Audience'' \<in> set (columns df)"
    by (rule columns_rename_iff) simp_all
  have toast: "fst (app rnd other df) \<longleftrightarrow> ''Audience'' \<notin> set (columns (rename rename_map df))"
    by (simp add: app_toast fst_autofix)
  have absent: "''Audience'' \<notin> set (columns df) \<longrightarrow>
      cols (snd (autofix rnd df)) =
        cols (rename rename_map df)
          @ [(''Audience'', map S (random_choice rnd audiences (nrows df)))] \<and>
      getitem (snd (autofix rnd df)) ''Audience'' =
        Inr (map S (random_choice rnd audiences (nrows df))) \<and>
      length (random_choice rnd audiences (nrows df)) = nrows df \<and>
      set (random_choice rnd audiences (nrows df)) \<subseteq>
        {''Gen Z'', ''Millennials'', ''Gen X'', ''Boomers'', ''All''}"
  proof
    assume "''Audience'' \<notin> set (columns df)"
    then have n: "''Audience'' \<notin> set (columns (rename rename_map df))"
      using iff by simp
    have s: "set (random_choice rnd audiences (nrows df)) \<subseteq> set audiences"
      by (rule set_random_choice) (simp add: audiences_def)
    have s': "set audiences = {''Gen Z'', ''Millennials'', ''Gen X'', ''Boomers'', ''All''}"
      by (simp add: audiences_def)
    show "cols (snd (autofix rnd df)) =
        cols (rename rename_map df)
          @ [(''Audience'', map S (random_choice rnd audiences (nrows df)))] \<and>
      getitem (snd (autofix rnd df)) ''Audience'' =
        Inr (map S (random_choice rnd audiences (nrows df))) \<and>
      length (random_choice rnd audiences (nrows df)) = nrows df \<and>
      set (random_choice rnd audiences (nrows df)) \<subseteq>
        {''Gen Z'', ''Millennials'', ''Gen X'', ''Boomers'', ''All''}"
      using n s unfolding s'
      by (simp add: snd_autofix cols_setitem_new getitem_setitem_new length_random_choice)
  qed
  have present: "''Audience'' \<in> set (columns df) \<longrightarrow>
      snd (autofix rnd df) = rename rename_map df \<and>
      filter (\<lambda>p. fst p = ''Audience'') (cols (snd (autofix rnd df))) =
        filter (\<lambda>p. fst p = ''Audience'') (cols df) \<and>
      getitem (snd (autofix rnd df)) ''Audience'' = getitem df ''Audience''"
  proof
    assume "''Audience'' \<in> set (columns df)"
    then have n: "''Audience'' \<in> set (columns (rename rename_map df))"
      using iff by simp
    have f: "filter (\<lambda>p. fst p = ''Audience'') (cols (rename rename_map df)) =
        filter (\<lambda>p. fst p = ''Audience'') (cols df)"
      by (rule filter_label_rename) simp_all
    have g: "getitem (rename rename_map df) ''Audience'' = getitem df ''Audience''"
      by (rule getitem_rename) simp_all
    show "snd (autofix rnd df) = rename rename_map df \<and>
      filter (\<lambda>p. fst p = ''Audience'') (cols (snd (autofix rnd df))) =
        filter (\<lambda>p. fst p = ''Audience'') (cols df) \<and>
      getitem (snd (autofix rnd df)) ''Audience'' = getitem df ''Audience''"
      using n f g by (simp add: snd_autofix)
  qed
  show ?thesis using iff toast absent present by blast
qed

theorem audience_synthesis_witness:
  "fst (app (\<lambda>i. 7 + i) (\<lambda>xs. Inl ValueError) df_w7) \<and>
   getitem (snd (autofix (\<lambda>i. 7 + i) df_w7)) ''Audience'' = Inr [S ''Gen X'', S ''Boomers''] \<and>
   \<not> fst (app (\<lambda>i. 7 + i) (\<lambda>xs. Inl ValueError) df_w7b) \<and>
   getitem (snd (autofix (\<lambda>i. 7 + i) df_w7b)) ''Audience'' = Inr [S ''Retirees'']"
proof -
  have a: "''Audience'' \<notin> set (columns df_w7)" by (simp add: df_w7_def columns_def)
  have b: "''Audience'' \<in> set (columns df_w7b)" by (simp add: df_w7b_def columns_def)
  have r: "random_choice (\<lambda>i. 7 + i) audiences (nrows df_w7) = [''Gen X'', ''Boomers'']"
    by (simp add: random_choice_def audiences_def df_w7_def upt_rec)
  have g: "getitem df_w7b ''Audience'' = Inr [S ''Retirees'']"
    by (simp add: getitem_def df_w7b_def)
  have 1: "fst (app (\<lambda>i. 7 + i) (\<lambda>xs. Inl ValueError) df_w7) \<and>
      getitem (snd (autofix (\<lambda>i. 7 + i) df_w7)) ''Audience'' = Inr [S ''Gen X'', S ''Boomers'']"
    using a r audience_synthesis [of "\<lambda>i. 7 + i" "\<lambda>xs. Inl ValueError" df_w7] by simp
  have 2: "\<not> fst (app (\<lambda>i. 7 + i) (\<lambda>xs. Inl ValueError) df_w7b) \<and>
      getitem (snd (autofix (\<lambda>i. 7 + i) df_w7b)) ''Audience'' = Inr [S ''Retirees'']"
    using b g audience_synthesis [of "\<lambda>i. 7 + i" "\<lambda>xs. Inl ValueError" df_w7b] by metis
  show ?thesis using 1 2 by blast
qed



lemma filter_setitem_same:
  "filter (\<lambda>p. fst p = c) (map (\<lambda>p. if fst p = c then (c, v) else p) xs)
     = map (\<lambda>p. (c, v)) (filter (\<lambda>p. fst p = c) xs)"
  by (induction xs) auto


lemma getitem_setitem_unique:
  assumes "getitem df c = Inr old"
  shows "getitem (setitem df c v) c = Inr v"
proof -
  from assms obtain p where p: "filter (\<lambda>p. fst p = c) (cols df) = [p]"
    by (auto simp: getitem_def split: list.splits)
  then have "p \<in> set (filter (\<lambda>p. fst p = c) (cols df))" by simp
  then have "p \<in> set (cols df)" "fst p = c" by simp_all
  then have "c \<in> set (columns df)" by (force simp: columns_def)
  then show ?thesis using p by (simp add: getitem_def setitem_def filter_setitem_same)
qed


lemma columns_setitem: "set (columns (setitem df c v)) = insert c (set (columns df))"
proof (cases "c \<in> set (columns df)")
  case True
  have "map fst (map (\<lambda>p. if fst p = c then (c, v) else p) xs) = map fst xs"
    for xs :: "(string \<times> cell list) list"
    by (induction xs) auto
  with True show ?thesis by (auto simp: setitem_def columns_def)
next
  case False
  then show ?thesis by (simp add: setitem_def columns_def)
qed


















subsection \<open>The aggregate ROAS\<close>



















subsection \<open>Dates and weekdays\<close>
















subsection \<open>The leaderboard\<close>




end
